theory Spec2Isabelle
  imports Main
begin

section \<open>The speech-session lifecycle of wispr-clone\<close>

text \<open>
  A shallow embedding of \<^verbatim>\<open>src/services/deepgram.ts\<close>, \<^verbatim>\<open>src/services/audio.ts\<close>,
  \<^verbatim>\<open>src/hooks/useVoiceRecording.ts\<close> and the hotkey handler of \<^verbatim>\<open>src/App.tsx\<close>.

  The source files hold two revisions of \<^verbatim>\<open>deepgram.ts\<close> and of the hook. Revision 2 is the
  current one (endpointing 1000 ms, the \<^verbatim>\<open>isStartingRef\<close> guard, the paste request);
  definitions ending in \<open>_r1\<close> embed revision 1, definitions ending in \<open>_r2\<close> revision 2,
  and definitions without a suffix are code that is the same in both.

  All mutable objects live in one record, \<open>world\<close>: the \<^verbatim>\<open>DeepgramService\<close> objects in a
  heap indexed by address (the hook's \<^verbatim>\<open>deepgramRef\<close> aliases one of them, and the handlers
  the SDK holds alias them as \<^verbatim>\<open>this\<close>), the fields of the one \<^verbatim>\<open>AudioService\<close>, the
  React state and the refs of the hook. Every call that leaves the program (SDK, browser
  media API, Tauri \<^verbatim>\<open>invoke\<close>, timers), every call of a React state setter, every write to
  a ref and every call of a \<^verbatim>\<open>TranscriptionCallbacks\<close> member is appended to \<open>trace\<close> in
  program order. \<^verbatim>\<open>console.log\<close> output is not modelled.

  JavaScript runs one job at a time. An \<^verbatim>\<open>async\<close> function runs synchronously up to its
  first \<^verbatim>\<open>await\<close>; what follows an \<^verbatim>\<open>await\<close> of an already settled promise runs at the
  microtask checkpoint that ends the current job, before any other event is delivered.
  Each function below is one such synchronous segment or, where its text says so, the
  segments of one call in the order the event loop runs them.
\<close>

subsection \<open>Actions and objects\<close>

type_synonym addr = nat

type_synonym chunk = "nat list"

datatype action =
    ConnOpen addr
  | ConnFinish addr
  | ConnSend addr chunk
  | GetUserMedia
  | RecorderStart
  | RecorderStop
  | TrackStop
  | CbTranscript string bool
  | CbSpeechEnd string
  | CbError string
  | SetError "string option"
  | SetTranscript string
  | SetIsRecording bool
  | SetIsProcessing bool
  | RefHasEnded bool
  | RefIsStarting bool
  | RefDeepgram "addr option"
  | InvokePaste string
  | InvokeHide
  | InvokeShow
  | SetTimeout nat

text \<open>
  A \<^verbatim>\<open>DeepgramService\<close>. \<open>connection\<close> is \<open>None\<close> for \<^verbatim>\<open>null\<close> and otherwise holds what
  \<^verbatim>\<open>getReadyState()\<close> returns (0 connecting, 1 open, 2 closing, 3 closed).
\<close>

record service =
  connection :: "nat option"
  finalTranscript :: string
  interimTranscript :: string
  hasSpeechFinal :: bool

datatype recorder_state = Inactive | Recording | Paused

text \<open>A continuation waiting for the microtask checkpoint, with the revision of the hook it belongs to.\<close>

datatype cont =
    SpeechEndResume_r1
  | SpeechEndResume_r2 string

record world =
  heap :: "addr \<Rightarrow> service"
  nextAddr :: addr
  deepgramRef :: "addr option"
  mediaRecorder :: "recorder_state option"
  audioStream :: "nat option"
  isRecording :: bool
  transcript :: string
  isProcessing :: bool
  error :: "string option"
  hasEndedRef :: bool
  isStartingRef :: bool
  pending :: "cont list"
  trace :: "action list"

definition log :: "action \<Rightarrow> world \<Rightarrow> world" where
  "log a w = w\<lparr>trace := trace w @ [a]\<rparr>"

definition this :: "addr \<Rightarrow> world \<Rightarrow> service" where
  "this a w = heap w a"

definition upd :: "addr \<Rightarrow> (service \<Rightarrow> service) \<Rightarrow> world \<Rightarrow> world" where
  "upd a f w = w\<lparr>heap := (heap w)(a := f (heap w a))\<rparr>"

text \<open>The field initialisers of \<^verbatim>\<open>class DeepgramService\<close>.\<close>

definition new_service :: service where
  "new_service = \<lparr>connection = None, finalTranscript = '''', interimTranscript = '''',
     hasSpeechFinal = False\<rparr>"

text \<open>The state of the hook at its first render, with no service allocated yet.\<close>

definition initial :: world where
  "initial = \<lparr>heap = (\<lambda>_. new_service), nextAddr = 0, deepgramRef = None,
     mediaRecorder = None, audioStream = None, isRecording = False, transcript = '''',
     isProcessing = False, error = None, hasEndedRef = False, isStartingRef = False,
     pending = [], trace = []\<rparr>"

subsection \<open>React state setters and ref writes\<close>

definition setError :: "string option \<Rightarrow> world \<Rightarrow> world" where
  "setError e w = log (SetError e) (w\<lparr>error := e\<rparr>)"

definition setTranscript :: "string \<Rightarrow> world \<Rightarrow> world" where
  "setTranscript t w = log (SetTranscript t) (w\<lparr>transcript := t\<rparr>)"

definition setIsRecording :: "bool \<Rightarrow> world \<Rightarrow> world" where
  "setIsRecording b w = log (SetIsRecording b) (w\<lparr>isRecording := b\<rparr>)"

definition setIsProcessing :: "bool \<Rightarrow> world \<Rightarrow> world" where
  "setIsProcessing b w = log (SetIsProcessing b) (w\<lparr>isProcessing := b\<rparr>)"

definition set_hasEndedRef :: "bool \<Rightarrow> world \<Rightarrow> world" where
  "set_hasEndedRef b w = log (RefHasEnded b) (w\<lparr>hasEndedRef := b\<rparr>)"

definition set_isStartingRef :: "bool \<Rightarrow> world \<Rightarrow> world" where
  "set_isStartingRef b w = log (RefIsStarting b) (w\<lparr>isStartingRef := b\<rparr>)"

definition set_deepgramRef :: "addr option \<Rightarrow> world \<Rightarrow> world" where
  "set_deepgramRef r w = log (RefDeepgram r) (w\<lparr>deepgramRef := r\<rparr>)"

subsection \<open>AudioService\<close>

text \<open>
  \<^verbatim>\<open>AudioService.stopRecording\<close>: stop the recorder unless it is absent or inactive, stop
  every track of the stream and drop it, drop the recorder. \<open>audioStream\<close> holds the number of
  tracks of the stream.
\<close>

definition audio_stopRecording :: "world \<Rightarrow> world" where
  "audio_stopRecording w =
     (let w1 = (case mediaRecorder w of
                  Some st \<Rightarrow> if st \<noteq> Inactive then log RecorderStop w else w
                | None \<Rightarrow> w);
          w2 = (case audioStream w1 of
                  Some n \<Rightarrow> (w1\<lparr>trace := trace w1 @ replicate n TrackStop\<rparr>)\<lparr>audioStream := None\<rparr>
                | None \<Rightarrow> w1)
      in w2\<lparr>mediaRecorder := None\<rparr>)"

text \<open>
  \<^verbatim>\<open>AudioService.startRecording\<close> up to its \<^verbatim>\<open>await\<close>: the request for the microphone.
\<close>

definition audio_startRecording_request :: "world \<Rightarrow> world" where
  "audio_startRecording_request w = log GetUserMedia w"

text \<open>
  How the request ends: the stream with its tracks, a rejection (permission denied, no
  device), or a stream for which \<^verbatim>\<open>new MediaRecorder\<close> throws. The rest of
  \<^verbatim>\<open>startRecording\<close> returns \<open>Inl\<close> where the source rethrows from its \<^verbatim>\<open>catch\<close>; the world
  it leaves is kept in both cases, as the assignments made before the throw persist.
\<close>

datatype mic_outcome = Granted nat | Denied | RecorderUnsupported nat

definition audio_startRecording_resume :: "mic_outcome \<Rightarrow> world \<Rightarrow> world + world" where
  "audio_startRecording_resume out w =
     (case out of
        Denied \<Rightarrow> Inl w
      | RecorderUnsupported n \<Rightarrow> Inl (w\<lparr>audioStream := Some n\<rparr>)
      | Granted n \<Rightarrow>
          Inr (log RecorderStart (w\<lparr>audioStream := Some n, mediaRecorder := Some Recording\<rparr>)))"

subsection \<open>DeepgramService: the code shared by both revisions\<close>

text \<open>The callbacks object handed to the constructor.\<close>

record callbacks =
  onTranscript :: "string \<Rightarrow> bool \<Rightarrow> world \<Rightarrow> world"
  onSpeechEnd :: "string \<Rightarrow> world \<Rightarrow> world"
  onError :: "string \<Rightarrow> world \<Rightarrow> world"

definition call_onTranscript :: "callbacks \<Rightarrow> string \<Rightarrow> bool \<Rightarrow> world \<Rightarrow> world" where
  "call_onTranscript cbs t fin w = onTranscript cbs t fin (log (CbTranscript t fin) w)"

definition call_onSpeechEnd :: "callbacks \<Rightarrow> string \<Rightarrow> world \<Rightarrow> world" where
  "call_onSpeechEnd cbs t w = onSpeechEnd cbs t (log (CbSpeechEnd t) w)"

definition call_onError :: "callbacks \<Rightarrow> string \<Rightarrow> world \<Rightarrow> world" where
  "call_onError cbs m w = onError cbs m (log (CbError m) w)"

text \<open>
  \<^verbatim>\<open>this.connection && this.connection.getReadyState() === 1\<close>, then \<^verbatim>\<open>finish()\<close> inside a
  \<^verbatim>\<open>try\<close> whose \<^verbatim>\<open>catch\<close> only logs.
\<close>

definition is_open :: "service \<Rightarrow> bool" where
  "is_open s = (connection s = Some 1)"

definition finish_if_open :: "addr \<Rightarrow> world \<Rightarrow> world" where
  "finish_if_open a w = (if is_open (this a w) then log (ConnFinish a) w else w)"

definition svc_reset :: "addr \<Rightarrow> world \<Rightarrow> world" where
  "svc_reset a w =
     upd a (\<lambda>s. s\<lparr>finalTranscript := '''', interimTranscript := '''', hasSpeechFinal := False\<rparr>) w"

text \<open>\<^verbatim>\<open>DeepgramService.stop\<close>: its body has no \<^verbatim>\<open>await\<close>, so a call runs all of it.\<close>

definition svc_stop :: "addr \<Rightarrow> world \<Rightarrow> world" where
  "svc_stop a w = svc_reset a (upd a (\<lambda>s. s\<lparr>connection := None\<rparr>) (finish_if_open a w))"

definition svc_sendAudio :: "addr \<Rightarrow> chunk \<Rightarrow> world \<Rightarrow> world" where
  "svc_sendAudio a c w = (if is_open (this a w) then log (ConnSend a c) w else w)"

text \<open>
  \<^verbatim>\<open>DeepgramService.start\<close>: \<open>exn\<close> is the message of what \<^verbatim>\<open>createClient\<close> or
  \<^verbatim>\<open>listen.live\<close> throws, if they throw; the \<^verbatim>\<open>catch\<close> hands it to \<^verbatim>\<open>onError\<close>. A new socket
  is connecting (ready state 0).
\<close>

definition svc_start :: "callbacks \<Rightarrow> addr \<Rightarrow> string option \<Rightarrow> world \<Rightarrow> world" where
  "svc_start cbs a exn w =
     (case exn of
        None \<Rightarrow> log (ConnOpen a) (upd a (\<lambda>s. s\<lparr>connection := Some 0\<rparr>) w)
      | Some m \<Rightarrow> call_onError cbs m w)"

text \<open>
  The payload of a \<^verbatim>\<open>Transcript\<close> event: \<open>alt_transcript\<close> is
  \<^verbatim>\<open>data.channel?.alternatives[0]?.transcript\<close> (\<open>None\<close> for \<^verbatim>\<open>undefined\<close>), the flags are the
  truth values of \<^verbatim>\<open>data.is_final\<close> and \<^verbatim>\<open>data.speech_final\<close>.
\<close>

record transcript_data =
  alt_transcript :: "string option"
  is_final :: bool
  speech_final :: bool

definition transcript_of :: "transcript_data \<Rightarrow> string" where
  "transcript_of d = (case alt_transcript d of None \<Rightarrow> '''' | Some t \<Rightarrow> t)"

text \<open>\<^verbatim>\<open>this.finalTranscript += (this.finalTranscript ? " " : "") + transcript\<close>\<close>

definition commit :: "string \<Rightarrow> service \<Rightarrow> service" where
  "commit t s =
     s\<lparr>finalTranscript := finalTranscript s @ ((if finalTranscript s \<noteq> '''' then '' '' else '''') @ t)\<rparr>"

text \<open>\<^verbatim>\<open>this.finalTranscript + (this.finalTranscript ? " " : "") + this.interimTranscript\<close>\<close>

definition combined :: "service \<Rightarrow> string" where
  "combined s =
     (finalTranscript s @ (if finalTranscript s \<noteq> '''' then '' '' else '''')) @ interimTranscript s"

text \<open>The \<^verbatim>\<open>UtteranceEnd\<close> handler.\<close>

definition on_UtteranceEnd :: "callbacks \<Rightarrow> addr \<Rightarrow> world \<Rightarrow> world" where
  "on_UtteranceEnd cbs a w =
     (if \<not> hasSpeechFinal (this a w) \<and> finalTranscript (this a w) \<noteq> ''''
      then call_onSpeechEnd cbs (finalTranscript (this a w)) w
      else w)"

text \<open>
  The \<^verbatim>\<open>Error\<close> handler: \<^verbatim>\<open>new Error(error.message || "Deepgram error")\<close>; \<open>m\<close> is
  \<^verbatim>\<open>error.message\<close>.
\<close>

definition on_Error :: "callbacks \<Rightarrow> string option \<Rightarrow> world \<Rightarrow> world" where
  "on_Error cbs m w =
     call_onError cbs (case m of None \<Rightarrow> ''Deepgram error''
                       | Some t \<Rightarrow> if t = '''' then ''Deepgram error'' else t) w"

subsection \<open>DeepgramService: the Transcript handler\<close>

text \<open>Revision 1.\<close>

definition on_Transcript_r1 :: "callbacks \<Rightarrow> addr \<Rightarrow> transcript_data \<Rightarrow> world \<Rightarrow> world" where
  "on_Transcript_r1 cbs a d w =
     (let transcript = transcript_of d in
      if transcript = '''' then w
      else if speech_final d then
        (if hasSpeechFinal (this a w) then w
         else
           let w1 = upd a (\<lambda>s. s\<lparr>hasSpeechFinal := True\<rparr>) w;
               w2 = upd a (commit transcript) w1;
               w3 = call_onTranscript cbs (finalTranscript (this a w2)) True w2;
               w4 = finish_if_open a w3
           in call_onSpeechEnd cbs (finalTranscript (this a w4)) w4)
      else if is_final d then
        (if hasSpeechFinal (this a w) then w
         else
           let w1 = upd a (commit transcript) w
           in call_onTranscript cbs (finalTranscript (this a w1)) True w1)
      else
        (if hasSpeechFinal (this a w) then w
         else
           let w1 = upd a (\<lambda>s. s\<lparr>interimTranscript := transcript\<rparr>) w
           in call_onTranscript cbs (combined (this a w1)) False w1))"

text \<open>Revision 2.\<close>

definition on_Transcript_r2 :: "callbacks \<Rightarrow> addr \<Rightarrow> transcript_data \<Rightarrow> world \<Rightarrow> world" where
  "on_Transcript_r2 cbs a d w =
     (let transcript = transcript_of d in
      if transcript = '''' then w
      else
        let w3 =
          (if is_final d then
             let w1 = upd a (commit transcript) w;
                 w2 = upd a (\<lambda>s. s\<lparr>interimTranscript := ''''\<rparr>) w1
             in call_onTranscript cbs (finalTranscript (this a w2)) True w2
           else
             let w1 = upd a (\<lambda>s. s\<lparr>interimTranscript := transcript\<rparr>) w
             in call_onTranscript cbs (combined (this a w1)) False w1)
        in
          if speech_final d \<and> \<not> hasSpeechFinal (this a w3) then
            let w4 = upd a (\<lambda>s. s\<lparr>hasSpeechFinal := True\<rparr>) w3;
                w5 = call_onSpeechEnd cbs (finalTranscript (this a w4)) w4
            in svc_stop a w5
          else w3)"

subsection \<open>The hook useVoiceRecording: callbacks\<close>

text \<open>\<^verbatim>\<open>onTranscript\<close>, the same in both revisions.\<close>

definition hook_onTranscript :: "string \<Rightarrow> bool \<Rightarrow> world \<Rightarrow> world" where
  "hook_onTranscript text isFinal w = setTranscript text w"

text \<open>
  \<^verbatim>\<open>onSpeechEnd\<close> up to \<^verbatim>\<open>await deepgramRef.current?.stop()\<close>. The code is the same in both
  revisions; \<open>k\<close> is what follows the \<^verbatim>\<open>await\<close>, left for the microtask checkpoint.
\<close>

definition hook_onSpeechEnd :: "cont \<Rightarrow> world \<Rightarrow> world" where
  "hook_onSpeechEnd k w =
     (if hasEndedRef w then w
      else
        let w1 = set_hasEndedRef True w;
            w2 = audio_stopRecording w1;
            w3 = (case deepgramRef w2 of Some a \<Rightarrow> svc_stop a w2 | None \<Rightarrow> w2)
        in w3\<lparr>pending := pending w3 @ [k]\<rparr>)"

definition onSpeechEnd_r1 :: "string \<Rightarrow> world \<Rightarrow> world" where
  "onSpeechEnd_r1 finalText w = hook_onSpeechEnd SpeechEndResume_r1 w"

definition onSpeechEnd_r2 :: "string \<Rightarrow> world \<Rightarrow> world" where
  "onSpeechEnd_r2 finalText w = hook_onSpeechEnd (SpeechEndResume_r2 finalText) w"

text \<open>Revision 1 after the \<^verbatim>\<open>await\<close>: the flags and the one-second timer; nothing is pasted.\<close>

definition onSpeechEnd_resume_r1 :: "world \<Rightarrow> world" where
  "onSpeechEnd_resume_r1 w = log (SetTimeout 1000) (setIsProcessing True (setIsRecording False w))"

definition timer_fired_r1 :: "world \<Rightarrow> world" where
  "timer_fired_r1 w = setIsProcessing False w"

text \<open>
  Revision 2 after the \<^verbatim>\<open>await\<close>: the reference is cleared, the flags are set and
  \<^verbatim>\<open>invoke("copy_and_paste_text", { text: finalText })\<close> is called.
\<close>

definition onSpeechEnd_resume_r2 :: "string \<Rightarrow> world \<Rightarrow> world" where
  "onSpeechEnd_resume_r2 finalText w =
     log (InvokePaste finalText) (setIsProcessing True (setIsRecording False (set_deepgramRef None w)))"

text \<open>The paste resolves: the timer is set. The paste rejects: the \<^verbatim>\<open>catch\<close>.\<close>

definition paste_resolved_r2 :: "world \<Rightarrow> world" where
  "paste_resolved_r2 w = log (SetTimeout 1000) w"

definition paste_rejected_r2 :: "world \<Rightarrow> world" where
  "paste_rejected_r2 w =
     set_isStartingRef False (setIsProcessing False (setError (Some ''Failed to paste text'') w))"

text \<open>The timer callback up to \<^verbatim>\<open>await invoke("hide_recording_pill")\<close>, and after it.\<close>

definition timer_fired_r2 :: "world \<Rightarrow> world" where
  "timer_fired_r2 w = log InvokeHide w"

definition hide_resolved_r2 :: "world \<Rightarrow> world" where
  "hide_resolved_r2 w = set_isStartingRef False (setTranscript '''' (setIsProcessing False w))"

definition onError_r1 :: "string \<Rightarrow> world \<Rightarrow> world" where
  "onError_r1 m w = setIsRecording False (setError (Some m) w)"

definition onError_r2 :: "string \<Rightarrow> world \<Rightarrow> world" where
  "onError_r2 m w = set_isStartingRef False (setIsRecording False (setError (Some m) w))"

definition callbacks_r1 :: callbacks where
  "callbacks_r1 = \<lparr>onTranscript = hook_onTranscript, onSpeechEnd = onSpeechEnd_r1,
     onError = onError_r1\<rparr>"

definition callbacks_r2 :: callbacks where
  "callbacks_r2 = \<lparr>onTranscript = hook_onTranscript, onSpeechEnd = onSpeechEnd_r2,
     onError = onError_r2\<rparr>"

text \<open>The microtask checkpoint: the waiting continuations run in the order they were left.\<close>

definition run_cont :: "cont \<Rightarrow> world \<Rightarrow> world" where
  "run_cont k w =
     (case k of
        SpeechEndResume_r1 \<Rightarrow> onSpeechEnd_resume_r1 w
      | SpeechEndResume_r2 finalText \<Rightarrow> onSpeechEnd_resume_r2 finalText w)"

definition checkpoint :: "world \<Rightarrow> world" where
  "checkpoint w = fold run_cont (pending w) (w\<lparr>pending := []\<rparr>)"

subsection \<open>The hook, revision 2: startRecording and stopRecording\<close>

text \<open>
  \<^verbatim>\<open>isStartingRef.current || isRecording\<close>. \<^verbatim>\<open>isRecording\<close> is the React state variable as the
  closure of \<^verbatim>\<open>startRecording\<close> holds it: the value of the render that created this
  \<^verbatim>\<open>startRecording\<close>, here \<open>seen\<close>.
\<close>

definition start_guard :: "bool \<Rightarrow> world \<Rightarrow> bool" where
  "start_guard seen w = (isStartingRef w \<or> seen)"

text \<open>
  After the guard, up to the first \<^verbatim>\<open>await\<close>: the latch, and the call of \<^verbatim>\<open>stop()\<close> on an
  old service.
\<close>

definition start_latch_r2 :: "world \<Rightarrow> world" where
  "start_latch_r2 w =
     (let w1 = set_isStartingRef True w
      in case deepgramRef w1 of Some a \<Rightarrow> svc_stop a w1 | None \<Rightarrow> w1)"

text \<open>
  Up to \<^verbatim>\<open>await deepgramRef.current.start()\<close>: the old reference is cleared (inside the
  \<^verbatim>\<open>if\<close> that stopped it), the state is reset, a service is allocated and started.
\<close>

definition start_link_r2 :: "string option \<Rightarrow> world \<Rightarrow> world" where
  "start_link_r2 exn w =
     (let w1 = (case deepgramRef w of Some a \<Rightarrow> set_deepgramRef None w | None \<Rightarrow> w);
          w2 = set_hasEndedRef False (setIsRecording True (setTranscript '''' (setError None w1)));
          a = nextAddr w2;
          w3 = w2\<lparr>heap := (heap w2)(a := new_service), nextAddr := Suc a\<rparr>;
          w4 = set_deepgramRef (Some a) w3
      in svc_start callbacks_r2 a exn w4)"

text \<open>
  \<^verbatim>\<open>startRecording\<close> from the call to the request for the microphone. Between its segments
  only microtasks run, and none is waiting when a hotkey handler calls it.
\<close>

definition startRecording_r2 :: "bool \<Rightarrow> string option \<Rightarrow> world \<Rightarrow> world" where
  "startRecording_r2 seen exn w =
     (if start_guard seen w then w
      else audio_startRecording_request (start_link_r2 exn (start_latch_r2 w)))"

text \<open>The request for the microphone ends: the last line of the \<^verbatim>\<open>try\<close>, or the \<^verbatim>\<open>catch\<close>.\<close>

definition startRecording_finish_r2 :: "mic_outcome \<Rightarrow> world \<Rightarrow> world" where
  "startRecording_finish_r2 out w =
     (case audio_startRecording_resume out w of
        Inr w1 \<Rightarrow> set_isStartingRef False w1
      | Inl w1 \<Rightarrow>
          set_isStartingRef False
            (setIsRecording False (setError (Some ''Failed to start recording'') w1)))"

text \<open>\<^verbatim>\<open>stopRecording\<close>: up to its \<^verbatim>\<open>await\<close>, after it, and the whole call.\<close>

definition stop_teardown_r2 :: "world \<Rightarrow> world" where
  "stop_teardown_r2 w =
     (let w1 = audio_stopRecording w
      in case deepgramRef w1 of Some a \<Rightarrow> svc_stop a w1 | None \<Rightarrow> w1)"

definition stop_reset_r2 :: "world \<Rightarrow> world" where
  "stop_reset_r2 w =
     set_isStartingRef False (set_hasEndedRef False (setIsRecording False (set_deepgramRef None w)))"

definition stopRecording_r2 :: "world \<Rightarrow> world" where
  "stopRecording_r2 w = stop_reset_r2 (stop_teardown_r2 w)"

text \<open>
  The sink handed to \<^verbatim>\<open>AudioService.startRecording\<close>, behind the recorder's
  \<^verbatim>\<open>event.data.size > 0\<close>.
\<close>

definition on_audio_data :: "chunk \<Rightarrow> world \<Rightarrow> world" where
  "on_audio_data c w =
     (if c \<noteq> [] then (case deepgramRef w of Some a \<Rightarrow> svc_sendAudio a c w | None \<Rightarrow> w) else w)"

subsection \<open>App.tsx and the events of a run\<close>

text \<open>
  \<^verbatim>\<open>App\<close> registers the hotkeys once, in \<^verbatim>\<open>useEffect(..., [])\<close>: the handlers keep the
  \<^verbatim>\<open>startRecording\<close> and the \<^verbatim>\<open>isRecording\<close> of the first render, where the state is
  \<^verbatim>\<open>useState(false)\<close>.
\<close>

definition first_render_isRecording :: bool where
  "first_render_isRecording = isRecording initial"

text \<open>
  One job of the event loop, ended by the microtask checkpoint. \<open>AltSpace\<close> is the hotkey
  after \<^verbatim>\<open>invoke("show_recording_pill")\<close> has resolved; \<open>Socket\<close> is the socket of a
  service changing its ready state.
\<close>

datatype event =
    AltSpace "string option"
  | Escape
  | Mic mic_outcome
  | Socket addr nat
  | Transcript addr transcript_data
  | UtteranceEnd addr
  | LinkError addr "string option"
  | AudioData chunk
  | PasteResolved
  | PasteRejected
  | TimerFired
  | HideResolved

definition handle_r2 :: "event \<Rightarrow> world \<Rightarrow> world" where
  "handle_r2 e w =
     (case e of
        AltSpace exn \<Rightarrow> startRecording_r2 first_render_isRecording exn (log InvokeShow w)
      | Escape \<Rightarrow> (if first_render_isRecording then log InvokeHide (stopRecording_r2 w) else w)
      | Mic out \<Rightarrow> startRecording_finish_r2 out w
      | Socket a n \<Rightarrow>
          (case connection (this a w) of
             Some _ \<Rightarrow> upd a (\<lambda>s. s\<lparr>connection := Some n\<rparr>) w
           | None \<Rightarrow> w)
      | Transcript a d \<Rightarrow> on_Transcript_r2 callbacks_r2 a d w
      | UtteranceEnd a \<Rightarrow> on_UtteranceEnd callbacks_r2 a w
      | LinkError a m \<Rightarrow> on_Error callbacks_r2 m w
      | AudioData c \<Rightarrow> on_audio_data c w
      | PasteResolved \<Rightarrow> paste_resolved_r2 w
      | PasteRejected \<Rightarrow> paste_rejected_r2 w
      | TimerFired \<Rightarrow> timer_fired_r2 w
      | HideResolved \<Rightarrow> hide_resolved_r2 w)"

definition step_r2 :: "event \<Rightarrow> world \<Rightarrow> world" where
  "step_r2 e w = checkpoint (handle_r2 e w)"

definition run_r2 :: "event list \<Rightarrow> world \<Rightarrow> world" where
  "run_r2 es w = fold step_r2 es w"

subsection \<open>Measures on a trace\<close>

definition is_paste :: "action \<Rightarrow> bool" where
  "is_paste x = (case x of InvokePaste _ \<Rightarrow> True | _ \<Rightarrow> False)"

definition pastes :: "world \<Rightarrow> nat" where
  "pastes w = length (filter is_paste (trace w))"

text \<open>Transitions to Processing: the calls of \<^verbatim>\<open>setIsProcessing(true)\<close>.\<close>

definition teardowns :: "world \<Rightarrow> nat" where
  "teardowns w = length (filter (\<lambda>x. x = SetIsProcessing True) (trace w))"

definition is_open_action :: "action \<Rightarrow> bool" where
  "is_open_action x = (case x of ConnOpen _ \<Rightarrow> True | _ \<Rightarrow> False)"

definition links_opened :: "world \<Rightarrow> nat" where
  "links_opened w = length (filter is_open_action (trace w))"

definition captures_requested :: "world \<Rightarrow> nat" where
  "captures_requested w = length (filter (\<lambda>x. x = GetUserMedia) (trace w))"

definition recorders_started :: "world \<Rightarrow> nat" where
  "recorders_started w = length (filter (\<lambda>x. x = RecorderStart) (trace w))"

definition recorders_stopped :: "world \<Rightarrow> nat" where
  "recorders_stopped w = length (filter (\<lambda>x. x = RecorderStop) (trace w))"

text \<open>The part of the trace that \<open>w'\<close> adds to the trace of \<open>w\<close>.\<close>

definition added :: "world \<Rightarrow> world \<Rightarrow> action list" where
  "added w w' = drop (length (trace w)) (trace w')"

text \<open>What the teardown of \<^verbatim>\<open>onSpeechEnd\<close> and \<^verbatim>\<open>stopRecording\<close> calls outside the program.\<close>

definition audio_actions :: "world \<Rightarrow> action list" where
  "audio_actions w =
     (case mediaRecorder w of
        Some st \<Rightarrow> if st \<noteq> Inactive then [RecorderStop] else []
      | None \<Rightarrow> []) @
     (case audioStream w of Some n \<Rightarrow> replicate n TrackStop | None \<Rightarrow> [])"

definition link_actions :: "world \<Rightarrow> action list" where
  "link_actions w =
     (case deepgramRef w of
        Some a \<Rightarrow> if is_open (this a w) then [ConnFinish a] else []
      | None \<Rightarrow> [])"

text \<open>The events through which the two end-of-utterance detectors reach the hook.\<close>

definition detector_event :: "event \<Rightarrow> bool" where
  "detector_event e = (case e of Transcript _ _ \<Rightarrow> True | UtteranceEnd _ \<Rightarrow> True | _ \<Rightarrow> False)"

subsection \<open>The spec's words\<close>

text \<open>"Joined by single spaces".\<close>

fun join_space :: "string list \<Rightarrow> string" where
  "join_space [] = ''''"
| "join_space [x] = x"
| "join_space (x # y # ys) = x @ '' '' @ join_space (y # ys)"

text \<open>
  "Previously committed Final texts": the texts of the final results of a run of
  Transcript events that the handler commits, which are those that are not empty.
\<close>

definition committed :: "transcript_data list \<Rightarrow> string list" where
  "committed ds = map transcript_of (filter (\<lambda>d. is_final d \<and> transcript_of d \<noteq> '''') ds)"

subsection \<open>Sample events and worlds\<close>

definition interim_result :: "string \<Rightarrow> transcript_data" where
  "interim_result t = \<lparr>alt_transcript = Some t, is_final = False, speech_final = False\<rparr>"

definition final_result :: "string \<Rightarrow> transcript_data" where
  "final_result t = \<lparr>alt_transcript = Some t, is_final = True, speech_final = False\<rparr>"

definition speech_final_result :: "string \<Rightarrow> transcript_data" where
  "speech_final_result t = \<lparr>alt_transcript = Some t, is_final = True, speech_final = True\<rparr>"

text \<open>The hotkey was pressed, the microphone granted with one track, the socket opened.\<close>

definition listening :: world where
  "listening = run_r2 [AltSpace None, Mic (Granted 1), Socket 0 1] initial"

text \<open>Then one interim and one final result arrived.\<close>

definition heard :: world where
  "heard = run_r2 [Transcript 0 (interim_result ''hel''), Transcript 0 (final_result ''hello'')]
     listening"

text \<open>Then an interim result for the next words.\<close>

definition hearing :: world where
  "hearing = step_r2 (Transcript 0 (interim_result ''the'')) heard"

text \<open>Or, after \<open>heard\<close>, a final result with \<^verbatim>\<open>speech_final\<close> that ended the utterance.\<close>

definition ended :: world where
  "ended = step_r2 (Transcript 0 (speech_final_result ''there'')) heard"

section \<open>Lemmas about the primitives\<close>

lemmas setters = log_def setError_def setTranscript_def setIsRecording_def setIsProcessing_def
  set_hasEndedRef_def set_isStartingRef_def set_deepgramRef_def

lemmas svc_defs = this_def upd_def is_open_def finish_if_open_def svc_reset_def svc_stop_def
  svc_sendAudio_def

lemmas hook_defs = call_onTranscript_def call_onSpeechEnd_def call_onError_def callbacks_r1_def
  callbacks_r2_def hook_onTranscript_def onSpeechEnd_r1_def onSpeechEnd_r2_def onError_r1_def
  onError_r2_def

lemmas run_defs = run_r2_def step_r2_def handle_r2_def checkpoint_def run_cont_def
  startRecording_r2_def start_guard_def start_latch_r2_def start_link_r2_def
  startRecording_finish_r2_def audio_startRecording_request_def audio_startRecording_resume_def
  first_render_isRecording_def initial_def new_service_def svc_start_def
  on_Transcript_r2_def on_UtteranceEnd_def on_Error_def transcript_of_def commit_def combined_def
  hook_onSpeechEnd_def onSpeechEnd_resume_r2_def audio_stopRecording_def
  interim_result_def final_result_def speech_final_result_def

lemma hook_onSpeechEnd_trace:
  "trace (hook_onSpeechEnd k w) =
     (if hasEndedRef w then trace w
      else trace w @ [RefHasEnded True] @ audio_actions w @ link_actions w)"
  by (simp add: hook_onSpeechEnd_def audio_stopRecording_def audio_actions_def link_actions_def
      Let_def svc_defs setters split: option.splits)

lemma listening_fields:
  "deepgramRef listening = Some 0" "connection (this 0 listening) = Some 1"
  "isRecording listening" "\<not> isStartingRef listening" "\<not> hasEndedRef listening"
  "pending listening = []" "mediaRecorder listening = Some Recording" "audioStream listening = Some 1"
  "finalTranscript (this 0 listening) = ''''" "\<not> hasSpeechFinal (this 0 listening)"
  by (simp_all add: listening_def run_defs svc_defs setters hook_defs Let_def)

lemma heard_fields:
  "deepgramRef heard = Some 0" "connection (this 0 heard) = Some 1"
  "isRecording heard" "\<not> isStartingRef heard" "\<not> hasEndedRef heard"
  "pending heard = []" "mediaRecorder heard = Some Recording" "audioStream heard = Some 1"
  "finalTranscript (this 0 heard) = ''hello''" "\<not> hasSpeechFinal (this 0 heard)"
  "interimTranscript (this 0 heard) = ''''" "transcript heard = ''hello''"
  by (simp_all add: heard_def listening_def run_defs svc_defs setters hook_defs Let_def)

lemma ended_fields:
  "hasEndedRef ended" "pending ended = []" "deepgramRef ended = None" "\<not> isRecording ended"
  "isProcessing ended" "transcript ended = ''hello there''" "pastes ended = 1" "teardowns ended = 1"
  "mediaRecorder ended = None" "audioStream ended = None" "this 0 ended = new_service"
  by (simp_all add: ended_def heard_def listening_def run_defs svc_defs setters hook_defs Let_def
      pastes_def teardowns_def is_paste_def)

lemma hearing_fields:
  "deepgramRef hearing = Some 0" "\<not> hasEndedRef hearing" "pending hearing = []"
  "finalTranscript (this 0 hearing) = ''hello''" "\<not> hasSpeechFinal (this 0 hearing)"
  "interimTranscript (this 0 hearing) = ''the''" "transcript hearing = ''hello the''"
  by (simp_all add: hearing_def heard_def listening_def run_defs svc_defs setters hook_defs Let_def)

lemma heard_counts: "pastes heard = 0" "teardowns heard = 0"
  by (simp_all add: heard_def listening_def run_defs svc_defs setters hook_defs Let_def
      pastes_def teardowns_def is_paste_def)

subsection \<open>The end-of-utterance callback\<close>

lemma checkpoint_idle: "pending w = [] \<Longrightarrow> checkpoint w = w"
  by (simp add: checkpoint_def)

lemma hook_onSpeechEnd_latched: "hasEndedRef w \<Longrightarrow> hook_onSpeechEnd k w = w"
  by (simp add: hook_onSpeechEnd_def)

lemma hook_onSpeechEnd_fields:
  "hasEndedRef (hook_onSpeechEnd k w)"
  "\<not> hasEndedRef w \<Longrightarrow> pending (hook_onSpeechEnd k w) = pending w @ [k]"
  "\<not> hasEndedRef w \<Longrightarrow> mediaRecorder (hook_onSpeechEnd k w) = None"
  "\<not> hasEndedRef w \<Longrightarrow> audioStream (hook_onSpeechEnd k w) = None"
  "deepgramRef (hook_onSpeechEnd k w) = deepgramRef w"
  "isRecording (hook_onSpeechEnd k w) = isRecording w"
  "isProcessing (hook_onSpeechEnd k w) = isProcessing w"
  "transcript (hook_onSpeechEnd k w) = transcript w"
  by (simp_all add: hook_onSpeechEnd_def audio_stopRecording_def Let_def svc_defs setters
      split: option.splits)

lemma hook_onSpeechEnd_link:
  "\<not> hasEndedRef w \<Longrightarrow> deepgramRef w = Some a \<Longrightarrow>
     this a (hook_onSpeechEnd k w) = new_service"
  by (simp add: hook_onSpeechEnd_def audio_stopRecording_def Let_def svc_defs setters new_service_def
      split: option.splits)

lemma speech_end_r2_trace:
  assumes "\<not> hasEndedRef w" "pending w = []"
  shows "trace (checkpoint (onSpeechEnd_r2 t w)) =
     trace w @ [RefHasEnded True] @ audio_actions w @ link_actions w @
       [RefDeepgram None, SetIsRecording False, SetIsProcessing True, InvokePaste t]"
  using assms
  by (simp add: checkpoint_def onSpeechEnd_r2_def hook_onSpeechEnd_fields run_cont_def
      onSpeechEnd_resume_r2_def setters hook_onSpeechEnd_trace)

lemma speech_end_r1_trace:
  assumes "\<not> hasEndedRef w" "pending w = []"
  shows "trace (checkpoint (onSpeechEnd_r1 t w)) =
     trace w @ [RefHasEnded True] @ audio_actions w @ link_actions w @
       [SetIsRecording False, SetIsProcessing True, SetTimeout 1000]"
  using assms
  by (simp add: checkpoint_def onSpeechEnd_r1_def hook_onSpeechEnd_fields run_cont_def
      onSpeechEnd_resume_r1_def setters hook_onSpeechEnd_trace)

lemma speech_end_after:
  assumes "\<not> hasEndedRef w" "pending w = []"
  shows "hasEndedRef (checkpoint (onSpeechEnd_r2 t w))" "pending (checkpoint (onSpeechEnd_r2 t w)) = []"
    "deepgramRef (checkpoint (onSpeechEnd_r2 t w)) = None"
    "\<not> isRecording (checkpoint (onSpeechEnd_r2 t w))" "isProcessing (checkpoint (onSpeechEnd_r2 t w))"
    "hasEndedRef (checkpoint (onSpeechEnd_r1 t w))" "pending (checkpoint (onSpeechEnd_r1 t w)) = []"
    "\<not> isRecording (checkpoint (onSpeechEnd_r1 t w))" "isProcessing (checkpoint (onSpeechEnd_r1 t w))"
  using assms
  by (simp_all add: checkpoint_def onSpeechEnd_r2_def onSpeechEnd_r1_def hook_onSpeechEnd_fields run_cont_def
      onSpeechEnd_resume_r2_def onSpeechEnd_resume_r1_def setters)

lemma quiet_actions:
  "filter is_paste (audio_actions w) = []" "filter is_paste (link_actions w) = []"
  "filter (\<lambda>x. x = SetIsProcessing True) (audio_actions w) = []"
  "filter (\<lambda>x. x = SetIsProcessing True) (link_actions w) = []"
  by (simp_all add: audio_actions_def link_actions_def is_paste_def split: option.splits)

lemma upd_view [simp]:
  "trace (upd a f w) = trace w" "hasEndedRef (upd a f w) = hasEndedRef w"
  "pending (upd a f w) = pending w" "deepgramRef (upd a f w) = deepgramRef w"
  "mediaRecorder (upd a f w) = mediaRecorder w" "audioStream (upd a f w) = audioStream w"
  by (simp_all add: upd_def)

lemma upd_counts [simp]:
  "pastes (upd a f w) = pastes w" "teardowns (upd a f w) = teardowns w"
  by (simp_all add: pastes_def teardowns_def)

lemma svc_stop_view:
  "hasEndedRef (svc_stop a w) = hasEndedRef w" "pending (svc_stop a w) = pending w"
  "pastes (svc_stop a w) = pastes w" "teardowns (svc_stop a w) = teardowns w"
  by (simp_all add: svc_defs setters pastes_def teardowns_def is_paste_def)

lemma onTranscript_view:
  "hasEndedRef (call_onTranscript callbacks_r2 t f w) = hasEndedRef w"
  "pending (call_onTranscript callbacks_r2 t f w) = pending w"
  "pastes (call_onTranscript callbacks_r2 t f w) = pastes w"
  "teardowns (call_onTranscript callbacks_r2 t f w) = teardowns w"
  by (simp_all add: hook_defs setters pastes_def teardowns_def is_paste_def)

lemma onSpeechEnd_view:
  "hasEndedRef w \<Longrightarrow> hasEndedRef (call_onSpeechEnd callbacks_r2 t w)"
  "hasEndedRef w \<Longrightarrow> pending (call_onSpeechEnd callbacks_r2 t w) = pending w"
  "\<not> hasEndedRef w \<Longrightarrow> hasEndedRef (call_onSpeechEnd callbacks_r2 t w)"
  "\<not> hasEndedRef w \<Longrightarrow>
     pending (call_onSpeechEnd callbacks_r2 t w) = pending w @ [SpeechEndResume_r2 t]"
  "pastes (call_onSpeechEnd callbacks_r2 t w) = pastes w"
  "teardowns (call_onSpeechEnd callbacks_r2 t w) = teardowns w"
  by (simp_all add: call_onSpeechEnd_def callbacks_r2_def onSpeechEnd_r2_def
      hook_onSpeechEnd_fields hook_onSpeechEnd_latched hook_onSpeechEnd_trace log_def
      pastes_def teardowns_def is_paste_def quiet_actions)

lemma resume_view:
  "hasEndedRef (onSpeechEnd_resume_r2 t w) = hasEndedRef w"
  "pending (onSpeechEnd_resume_r2 t w) = pending w"
  "pastes (onSpeechEnd_resume_r2 t w) = Suc (pastes w)"
  "teardowns (onSpeechEnd_resume_r2 t w) = Suc (teardowns w)"
  by (simp_all add: onSpeechEnd_resume_r2_def setters pastes_def teardowns_def is_paste_def)

lemma detector_handle:
  assumes "detector_event e" "pending w = []"
  shows "(hasEndedRef w \<longrightarrow> hasEndedRef (handle_r2 e w) \<and> pending (handle_r2 e w) = []) \<and>
         (\<not> hasEndedRef w \<longrightarrow> (\<not> hasEndedRef (handle_r2 e w) \<and> pending (handle_r2 e w) = []) \<or>
            (hasEndedRef (handle_r2 e w) \<and> (\<exists>t. pending (handle_r2 e w) = [SpeechEndResume_r2 t]))) \<and>
         pastes (handle_r2 e w) = pastes w \<and> teardowns (handle_r2 e w) = teardowns w"
proof (cases e)
  case (Transcript a d)
  show ?thesis
    using assms(2)
    by (cases "hasEndedRef w")
       (simp_all add: Transcript handle_r2_def on_Transcript_r2_def Let_def svc_stop_view
          onTranscript_view onSpeechEnd_view)
next
  case (UtteranceEnd a)
  show ?thesis
    using assms(2)
    by (cases "hasEndedRef w")
       (simp_all add: UtteranceEnd handle_r2_def on_UtteranceEnd_def onSpeechEnd_view)
qed (use assms(1) in \<open>simp_all add: detector_event_def\<close>)

lemma pending_counts [simp]:
  "pastes (w\<lparr>pending := p\<rparr>) = pastes w" "teardowns (w\<lparr>pending := p\<rparr>) = teardowns w"
  by (simp_all add: pastes_def teardowns_def)

lemma checkpoint_one:
  "pending w = [SpeechEndResume_r2 t] \<Longrightarrow> checkpoint w = onSpeechEnd_resume_r2 t (w\<lparr>pending := []\<rparr>)"
  by (simp add: checkpoint_def run_cont_def)

lemma detector_step:
  assumes "detector_event e" "pending w = []"
  shows "pending (step_r2 e w) = [] \<and>
         (hasEndedRef w \<longrightarrow> hasEndedRef (step_r2 e w) \<and> pastes (step_r2 e w) = pastes w \<and>
            teardowns (step_r2 e w) = teardowns w) \<and>
         (\<not> hasEndedRef w \<longrightarrow>
            (\<not> hasEndedRef (step_r2 e w) \<and> pastes (step_r2 e w) = pastes w \<and>
               teardowns (step_r2 e w) = teardowns w) \<or>
            (hasEndedRef (step_r2 e w) \<and> pastes (step_r2 e w) = Suc (pastes w) \<and>
               teardowns (step_r2 e w) = Suc (teardowns w)))"
proof (cases "pending (handle_r2 e w) = []")
  case True
  then have "step_r2 e w = handle_r2 e w" by (simp add: step_r2_def checkpoint_idle)
  with True detector_handle [OF assms] show ?thesis by auto
next
  case False
  with detector_handle [OF assms] obtain t where
    t: "pending (handle_r2 e w) = [SpeechEndResume_r2 t]" and h: "\<not> hasEndedRef w"
    and h': "hasEndedRef (handle_r2 e w)" by auto
  have "step_r2 e w = onSpeechEnd_resume_r2 t ((handle_r2 e w)\<lparr>pending := []\<rparr>)"
    by (simp add: step_r2_def checkpoint_one [OF t])
  with h h' detector_handle [OF assms] show ?thesis by (simp add: resume_view)
qed

lemma session_latched:
  assumes "\<forall>e\<in>set es. detector_event e" "pending w = []" "hasEndedRef w"
  shows "pastes (run_r2 es w) = pastes w \<and> teardowns (run_r2 es w) = teardowns w"
  using assms
proof (induction es arbitrary: w)
  case Nil
  then show ?case by (simp add: run_r2_def)
next
  case (Cons e es)
  from Cons.prems have d: "detector_event e" by simp
  from detector_step [OF d Cons.prems(2)] Cons.prems(3)
  have s: "pending (step_r2 e w) = []" "hasEndedRef (step_r2 e w)"
    "pastes (step_r2 e w) = pastes w" "teardowns (step_r2 e w) = teardowns w" by simp_all
  from Cons.IH [OF _ s(1) s(2)] Cons.prems(1) s(3,4) show ?case by (simp add: run_r2_def)
qed

lemma session_at_most_once:
  assumes "\<forall>e\<in>set es. detector_event e" "pending w = []"
  shows "pastes (run_r2 es w) \<le> Suc (pastes w) \<and> teardowns (run_r2 es w) \<le> Suc (teardowns w)"
  using assms
proof (induction es arbitrary: w)
  case Nil
  then show ?case by (simp add: run_r2_def)
next
  case (Cons e es)
  from Cons.prems have d: "detector_event e" and r: "\<forall>e\<in>set es. detector_event e" by simp_all
  note st = detector_step [OF d Cons.prems(2)]
  have run: "run_r2 (e # es) w = run_r2 es (step_r2 e w)" by (simp add: run_r2_def)
  show ?case
  proof (cases "hasEndedRef (step_r2 e w)")
    case True
    from session_latched [OF r _ True] st
    have "pastes (run_r2 es (step_r2 e w)) = pastes (step_r2 e w)"
      "teardowns (run_r2 es (step_r2 e w)) = teardowns (step_r2 e w)" by simp_all
    moreover from st have "pastes (step_r2 e w) \<le> Suc (pastes w)"
      "teardowns (step_r2 e w) \<le> Suc (teardowns w)" by auto
    ultimately show ?thesis by (simp add: run)
  next
    case False
    with st have "pastes (step_r2 e w) = pastes w" "teardowns (step_r2 e w) = teardowns w"
      by auto
    with Cons.IH [OF r, of "step_r2 e w"] st show ?thesis by (simp add: run)
  qed
qed

subsection \<open>Manual stop\<close>

lemma stop_teardown_trace:
  "trace (stop_teardown_r2 w) = trace w @ audio_actions w @ link_actions w"
  by (simp add: stop_teardown_r2_def audio_stopRecording_def audio_actions_def link_actions_def
      Let_def svc_defs setters split: option.splits)

lemma stop_teardown_fields:
  "mediaRecorder (stop_teardown_r2 w) = None" "audioStream (stop_teardown_r2 w) = None"
  "deepgramRef (stop_teardown_r2 w) = deepgramRef w" "pending (stop_teardown_r2 w) = pending w"
  "isProcessing (stop_teardown_r2 w) = isProcessing w"
  "deepgramRef w = Some a \<Longrightarrow> this a (stop_teardown_r2 w) = new_service"
  by (simp_all add: stop_teardown_r2_def audio_stopRecording_def Let_def svc_defs setters
      new_service_def split: option.splits)

lemma stop_reset_fields:
  "mediaRecorder (stop_reset_r2 w) = mediaRecorder w" "audioStream (stop_reset_r2 w) = audioStream w"
  "deepgramRef (stop_reset_r2 w) = None" "pending (stop_reset_r2 w) = pending w"
  "isProcessing (stop_reset_r2 w) = isProcessing w" "this a (stop_reset_r2 w) = this a w"
  "\<not> isRecording (stop_reset_r2 w)" "\<not> hasEndedRef (stop_reset_r2 w)"
  "\<not> isStartingRef (stop_reset_r2 w)"
  "trace (stop_reset_r2 w) = trace w @
     [RefDeepgram None, SetIsRecording False, RefHasEnded False, RefIsStarting False]"
  by (simp_all add: stop_reset_r2_def setters this_def)

subsection \<open>Committing final results\<close>

lemma join_space_snoc: "join_space (xs @ [t]) = (if xs = [] then t else join_space xs @ '' '' @ t)"
  by (induction xs rule: join_space.induct) auto

lemma join_space_empty: "\<forall>x\<in>set xs. x \<noteq> '''' \<Longrightarrow> join_space xs = '''' \<longleftrightarrow> xs = []"
  by (induction xs rule: join_space.induct) auto

lemma commit_join:
  assumes "finalTranscript s = join_space xs" "\<forall>x\<in>set xs. x \<noteq> ''''"
  shows "finalTranscript (commit t s) = join_space (xs @ [t])"
  using assms by (simp add: commit_def join_space_snoc join_space_empty)

lemma commit_fields [simp]:
  "hasSpeechFinal (commit t s) = hasSpeechFinal s"
  "interimTranscript (commit t s) = interimTranscript s" "connection (commit t s) = connection s"
  by (simp_all add: commit_def)

lemma this_upd [simp]: "this a (upd a f w) = f (this a w)"
  by (simp add: this_def upd_def)

lemma onTranscript_frame [simp]:
  "this a (call_onTranscript callbacks_r1 t f w) = this a w"
  "this a (call_onTranscript callbacks_r2 t f w) = this a w"
  "transcript (call_onTranscript callbacks_r1 t f w) = t"
  "transcript (call_onTranscript callbacks_r2 t f w) = t"
  by (simp_all add: hook_defs setters this_def)

lemma committed_Cons:
  "committed (d # ds) =
     (if is_final d \<and> transcript_of d \<noteq> '''' then transcript_of d # committed ds
      else committed ds)"
  by (simp add: committed_def)

text \<open>A Transcript event without \<^verbatim>\<open>speech_final\<close>, as it changes the service it is for.\<close>

lemma quiet_r2:
  assumes "\<not> speech_final d"
  shows "this a (on_Transcript_r2 callbacks_r2 a d w) =
     (if transcript_of d = '''' then this a w
      else if is_final d then (commit (transcript_of d) (this a w))\<lparr>interimTranscript := ''''\<rparr>
      else (this a w)\<lparr>interimTranscript := transcript_of d\<rparr>)"
  using assms by (simp add: on_Transcript_r2_def Let_def)

lemma quiet_r1:
  assumes "\<not> speech_final d" "\<not> hasSpeechFinal (this a w)"
  shows "this a (on_Transcript_r1 callbacks_r1 a d w) =
     (if transcript_of d = '''' then this a w
      else if is_final d then commit (transcript_of d) (this a w)
      else (this a w)\<lparr>interimTranscript := transcript_of d\<rparr>)"
  using assms by (simp add: on_Transcript_r1_def Let_def)

lemma quiet_step:
  assumes "\<not> speech_final d" "\<not> hasSpeechFinal (this a w)"
    "finalTranscript (this a w) = join_space prev" "\<forall>p\<in>set prev. p \<noteq> ''''"
  shows "finalTranscript (this a (on_Transcript_r2 callbacks_r2 a d w)) = join_space (prev @ committed [d])"
    "\<not> hasSpeechFinal (this a (on_Transcript_r2 callbacks_r2 a d w))"
    "finalTranscript (this a (on_Transcript_r1 callbacks_r1 a d w)) = join_space (prev @ committed [d])"
    "\<not> hasSpeechFinal (this a (on_Transcript_r1 callbacks_r1 a d w))"
  using assms
  by (auto simp add: quiet_r2 quiet_r1 committed_Cons commit_join committed_def)

lemma fold_quiet:
  assumes "\<forall>e\<in>set ds. \<not> speech_final e" "\<not> hasSpeechFinal (this a w)"
    "finalTranscript (this a w) = join_space prev" "\<forall>p\<in>set prev. p \<noteq> ''''"
  shows "finalTranscript (this a (fold (on_Transcript_r2 callbacks_r2 a) ds w)) =
           join_space (prev @ committed ds) \<and>
         \<not> hasSpeechFinal (this a (fold (on_Transcript_r2 callbacks_r2 a) ds w)) \<and>
         finalTranscript (this a (fold (on_Transcript_r1 callbacks_r1 a) ds w)) =
           join_space (prev @ committed ds) \<and>
         \<not> hasSpeechFinal (this a (fold (on_Transcript_r1 callbacks_r1 a) ds w))"
  using assms
proof (induction ds arbitrary: prev rule: rev_induct)
  case Nil
  then show ?case by (simp add: committed_def)
next
  case (snoc d ds)
  from snoc.prems have q: "\<not> speech_final d" and r: "\<forall>e\<in>set ds. \<not> speech_final e" by simp_all
  note ih = snoc.IH [OF r snoc.prems(2) snoc.prems(3) snoc.prems(4)]
  have ne: "\<forall>p\<in>set (prev @ committed ds). p \<noteq> ''''"
    using snoc.prems(4) by (auto simp: committed_def)
  have c: "committed (ds @ [d]) = committed ds @ committed [d]" by (simp add: committed_def)
  from ih have a2: "\<not> hasSpeechFinal (this a (fold (on_Transcript_r2 callbacks_r2 a) ds w))"
    and f2: "finalTranscript (this a (fold (on_Transcript_r2 callbacks_r2 a) ds w)) =
           join_space (prev @ committed ds)"
    and a1: "\<not> hasSpeechFinal (this a (fold (on_Transcript_r1 callbacks_r1 a) ds w))"
    and f1: "finalTranscript (this a (fold (on_Transcript_r1 callbacks_r1 a) ds w)) =
           join_space (prev @ committed ds)" by simp_all
  show ?case
    using quiet_step(1,2) [OF q a2 f2 ne] quiet_step(3,4) [OF q a1 f1 ne]
    by (simp add: c)
qed

text \<open>What a final result with text shows, whether or not it also ends the utterance.\<close>

lemma final_display:
  assumes "is_final d" "transcript_of d \<noteq> ''''"
  shows "transcript (on_Transcript_r2 callbacks_r2 a d w) =
           finalTranscript (commit (transcript_of d) (this a w))"
    "\<not> hasSpeechFinal (this a w) \<Longrightarrow>
       transcript (on_Transcript_r1 callbacks_r1 a d w) =
           finalTranscript (commit (transcript_of d) (this a w))"
  using assms
  by (simp_all add: on_Transcript_r2_def on_Transcript_r1_def Let_def call_onSpeechEnd_def
      callbacks_r2_def callbacks_r1_def onSpeechEnd_r2_def onSpeechEnd_r1_def
      hook_onSpeechEnd_fields svc_defs setters call_onTranscript_def hook_onTranscript_def
      commit_def)

subsection \<open>The stored interim hypothesis\<close>

lemma run_cont_frame: "this a (run_cont k w) = this a w" "transcript (run_cont k w) = transcript w"
  by (simp_all add: run_cont_def onSpeechEnd_resume_r1_def onSpeechEnd_resume_r2_def setters
      this_def split: cont.splits)

lemma fold_run_cont_frame:
  "this a (fold run_cont ks w) = this a w \<and> transcript (fold run_cont ks w) = transcript w"
  by (induction ks arbitrary: w) (simp_all add: run_cont_frame)

lemma checkpoint_frame:
  "this a (checkpoint w) = this a w" "transcript (checkpoint w) = transcript w"
  using fold_run_cont_frame [of a "pending w" "w\<lparr>pending := []\<rparr>"]
  by (simp_all add: checkpoint_def this_def)

lemma svc_stop_this: "this a (svc_stop a w) = new_service"
  by (simp add: svc_defs setters new_service_def)

lemma speech_final_resets:
  assumes "speech_final d" "transcript_of d \<noteq> ''''" "\<not> hasSpeechFinal (this a w)"
  shows "this a (on_Transcript_r2 callbacks_r2 a d w) = new_service"
  using assms by (simp add: on_Transcript_r2_def Let_def svc_stop_this)

lemma final_clears_interim:
  assumes "is_final d" "transcript_of d \<noteq> ''''"
  shows "interimTranscript (this a (on_Transcript_r2 callbacks_r2 a d w)) = ''''"
  using assms by (simp add: on_Transcript_r2_def Let_def svc_stop_this new_service_def)

lemma fallback_resets:
  assumes "\<not> hasEndedRef w" "deepgramRef w = Some a" "\<not> hasSpeechFinal (this a w)"
    "finalTranscript (this a w) \<noteq> ''''"
  shows "this a (on_UtteranceEnd callbacks_r2 a w) = new_service"
proof -
  have "this a (hook_onSpeechEnd k (log x w)) = new_service" for k x
    by (rule hook_onSpeechEnd_link) (simp_all add: log_def assms)
  with assms(3,4) show ?thesis
    by (simp add: on_UtteranceEnd_def call_onSpeechEnd_def callbacks_r2_def onSpeechEnd_r2_def)
qed

text \<open>Revision 1 keeps the interim text when the final result for it arrives.\<close>

lemma r1_final_keeps_interim:
  "interimTranscript (this 0 (fold (on_Transcript_r1 callbacks_r1 0)
      [interim_result ''hel'', final_result ''hello''] listening)) = ''hel'' \<and>
   interimTranscript (this 0 (fold (on_Transcript_r2 callbacks_r2 0)
      [interim_result ''hel'', final_result ''hello''] listening)) = ''''"
  by (simp add: quiet_r1 quiet_r2 listening_fields interim_result_def final_result_def
      transcript_of_def)

subsection \<open>Starting\<close>

lemma start_noop: "start_guard seen w \<Longrightarrow> startRecording_r2 seen exn w = w"
  by (simp add: startRecording_r2_def)

lemma start_latched_noop: "isStartingRef w \<Longrightarrow> startRecording_r2 seen exn w = w"
  by (simp add: startRecording_r2_def start_guard_def)

lemma start_latch_sets:
  "isStartingRef (start_latch_r2 w)"
  "\<exists>xs. trace (start_latch_r2 w) = trace w @ RefIsStarting True # xs"
  by (simp_all add: start_latch_r2_def Let_def svc_defs setters split: option.splits)

lemma start_trace:
  assumes "\<not> start_guard seen w"
  shows "trace (startRecording_r2 seen exn w) =
     trace w @ [RefIsStarting True] @ link_actions w @
     (case deepgramRef w of Some a \<Rightarrow> [RefDeepgram None] | None \<Rightarrow> []) @
     [SetError None, SetTranscript '''', SetIsRecording True, RefHasEnded False,
      RefDeepgram (Some (nextAddr w))] @
     (case exn of
        None \<Rightarrow> [ConnOpen (nextAddr w)]
      | Some m \<Rightarrow> [CbError m, SetError (Some m), SetIsRecording False, RefIsStarting False]) @
     [GetUserMedia]"
  using assms
  by (simp add: startRecording_r2_def start_latch_r2_def start_link_r2_def svc_start_def
      audio_startRecording_request_def link_actions_def Let_def svc_defs setters hook_defs
      split: option.splits)

lemma start_counts:
  assumes "\<not> start_guard seen w"
  shows "captures_requested (startRecording_r2 seen exn w) = Suc (captures_requested w)"
    "links_opened (startRecording_r2 seen None w) = Suc (links_opened w)"
  using assms
  by (simp_all add: captures_requested_def links_opened_def start_trace link_actions_def
      is_open_action_def split: option.splits)

lemma start_fields:
  assumes "\<not> start_guard seen w"
  shows "isStartingRef (startRecording_r2 seen None w)" "isRecording (startRecording_r2 seen None w)"
    "error (startRecording_r2 seen None w) = None"
    "deepgramRef (startRecording_r2 seen exn w) = Some (nextAddr w)"
    "\<not> hasEndedRef (startRecording_r2 seen exn w)"
  using assms
  by (simp_all add: startRecording_r2_def start_latch_r2_def start_link_r2_def svc_start_def
      audio_startRecording_request_def Let_def svc_defs setters hook_defs split: option.splits)

lemma finish_failed_fields:
  assumes "out = Denied \<or> out = RecorderUnsupported n"
  shows "\<not> isRecording (startRecording_finish_r2 out w)"
    "error (startRecording_finish_r2 out w) = Some ''Failed to start recording''"
    "\<not> isStartingRef (startRecording_finish_r2 out w)"
    "mediaRecorder (startRecording_finish_r2 out w) = mediaRecorder w"
  using assms
  by (auto simp add: startRecording_finish_r2_def audio_startRecording_resume_def setters)

lemma on_Error_fields:
  "\<not> isRecording (on_Error callbacks_r2 m w)" "error (on_Error callbacks_r2 m w) \<noteq> None"
  "\<not> isStartingRef (on_Error callbacks_r2 m w)"
  "\<not> isRecording (svc_start callbacks_r2 a (Some msg) w)"
  "error (svc_start callbacks_r2 a (Some msg) w) = Some msg"
  "\<not> isStartingRef (svc_start callbacks_r2 a (Some msg) w)"
  by (simp_all add: on_Error_def svc_start_def hook_defs setters)

lemma start_twice:
  assumes "\<not> start_guard seen w"
  shows "startRecording_r2 seen' exn (startRecording_r2 seen None w) = startRecording_r2 seen None w"
  by (rule start_latched_noop) (rule start_fields(1) [OF assms])

section \<open>Audio chunks sent while the connection is not open\<close>

text \<open>
  Claim C8. \<^verbatim>\<open>sendAudio\<close> on a service whose connection is \<^verbatim>\<open>null\<close> or whose ready state is
  not 1 (open) drops the chunk: nothing is sent, nothing is raised (the function has no
  error branch) and no field of any object changes. The code is the same in both revisions.
\<close>

theorem C8_send_dropped_unless_open:
  "connection (this a w) \<noteq> Some 1 \<Longrightarrow> svc_sendAudio a c w = w"
  by (simp add: svc_sendAudio_def is_open_def)

theorem C8_witness:
  "connection (this 0 initial) \<noteq> Some 1 \<and> svc_sendAudio 0 [1, 2, 3] initial = initial"
proof -
  have h: "connection (this 0 initial) \<noteq> Some 1"
    by (simp add: this_def initial_def new_service_def)
  show ?thesis using h C8_send_dropped_unless_open [OF h, of "[1, 2, 3]"] by simp
qed

section \<open>Transcript events with an empty transcript\<close>

text \<open>
  Claim C9. A \<^verbatim>\<open>Transcript\<close> event whose transcript is empty (or missing) returns at once, in
  both revisions and whatever the callbacks are: the world after it is the world before it,
  so no callback was called (the trace is unchanged) and \<^verbatim>\<open>finalTranscript\<close>,
  \<^verbatim>\<open>interimTranscript\<close> and \<^verbatim>\<open>hasSpeechFinal\<close> are what they were.
\<close>

theorem C9_empty_transcript_ignored:
  "transcript_of d = '''' \<Longrightarrow>
     on_Transcript_r1 cbs a d w = w \<and> on_Transcript_r2 cbs a d w = w"
  by (simp add: on_Transcript_r1_def on_Transcript_r2_def)

theorem C9_witness:
  "transcript_of (speech_final_result '''') = '''' \<and>
   on_Transcript_r1 callbacks_r1 0 (speech_final_result '''') heard = heard \<and>
   on_Transcript_r2 callbacks_r2 0 (speech_final_result '''') heard = heard"
proof -
  have h: "transcript_of (speech_final_result '''') = ''''"
    by (simp add: transcript_of_def speech_final_result_def)
  show ?thesis
    using h C9_empty_transcript_ignored [OF h, of callbacks_r1 0 heard]
      C9_empty_transcript_ignored [OF h, of callbacks_r2 0 heard]
    by simp
qed

section \<open>The fallback end-of-utterance detector\<close>

text \<open>
  Claim C10. The \<^verbatim>\<open>UtteranceEnd\<close> handler (the same in both revisions) does nothing when
  \<^verbatim>\<open>hasSpeechFinal\<close> is set or \<^verbatim>\<open>finalTranscript\<close> is empty; otherwise it calls
  \<^verbatim>\<open>onSpeechEnd\<close> with the committed text. So with the callbacks of either revision of the
  hook, it never adds a call of \<^verbatim>\<open>onSpeechEnd\<close> with the empty string to the trace.
\<close>

theorem C10_fallback_needs_committed_text:
  "(hasSpeechFinal (this a w) \<or> finalTranscript (this a w) = '''' \<longrightarrow>
      on_UtteranceEnd cbs a w = w) \<and>
   (\<not> hasSpeechFinal (this a w) \<and> finalTranscript (this a w) \<noteq> '''' \<longrightarrow>
      on_UtteranceEnd cbs a w = call_onSpeechEnd cbs (finalTranscript (this a w)) w) \<and>
   CbSpeechEnd '''' \<notin> set (added w (on_UtteranceEnd callbacks_r1 a w)) \<and>
   CbSpeechEnd '''' \<notin> set (added w (on_UtteranceEnd callbacks_r2 a w))"
  by (auto simp add: on_UtteranceEnd_def added_def call_onSpeechEnd_def callbacks_r1_def
      callbacks_r2_def onSpeechEnd_r1_def onSpeechEnd_r2_def hook_onSpeechEnd_trace log_def
      audio_actions_def link_actions_def split: option.splits if_splits)

theorem C10_witness:
  "finalTranscript (this 0 listening) = '''' \<and>
   on_UtteranceEnd callbacks_r2 0 listening = listening \<and>
   \<not> hasSpeechFinal (this 0 heard) \<and> finalTranscript (this 0 heard) \<noteq> '''' \<and>
   on_UtteranceEnd callbacks_r2 0 heard = call_onSpeechEnd callbacks_r2 ''hello'' heard"
  using C10_fallback_needs_committed_text [of 0 listening callbacks_r2]
    C10_fallback_needs_committed_text [of 0 heard callbacks_r2]
  by (simp add: listening_fields heard_fields)

section \<open>The end-of-utterance signal is honoured once\<close>

text \<open>
  Claim C1. Once \<^verbatim>\<open>hasEndedRef\<close> is set, \<^verbatim>\<open>onSpeechEnd\<close> (either revision) returns the world
  it was given: no field changes and nothing is added to the trace. From a world whose
  latch is clear, at the start of a job, one delivery of revision 2 makes exactly one paste
  request and one transition to Processing, and a second delivery changes nothing, whether it
  arrives in the same job or in a later one; revision 1 makes the one transition (it has no
  paste request). And whatever sequence of \<^verbatim>\<open>Transcript\<close> and \<^verbatim>\<open>UtteranceEnd\<close> events the
  two detectors deliver, on any service, revision 2 makes at most one paste request and
  one transition, and none when the latch was already set.
\<close>

theorem C1_speech_end_idempotent:
  "(hasEndedRef w \<longrightarrow> onSpeechEnd_r1 t w = w \<and> onSpeechEnd_r2 t w = w) \<and>
   (\<not> hasEndedRef w \<and> pending w = [] \<longrightarrow>
      pastes (checkpoint (onSpeechEnd_r2 t w)) = Suc (pastes w) \<and>
      teardowns (checkpoint (onSpeechEnd_r2 t w)) = Suc (teardowns w) \<and>
      checkpoint (onSpeechEnd_r2 t' (checkpoint (onSpeechEnd_r2 t w))) =
        checkpoint (onSpeechEnd_r2 t w) \<and>
      checkpoint (onSpeechEnd_r2 t' (onSpeechEnd_r2 t w)) = checkpoint (onSpeechEnd_r2 t w) \<and>
      teardowns (checkpoint (onSpeechEnd_r1 t w)) = Suc (teardowns w) \<and>
      checkpoint (onSpeechEnd_r1 t' (checkpoint (onSpeechEnd_r1 t w))) =
        checkpoint (onSpeechEnd_r1 t w) \<and>
      checkpoint (onSpeechEnd_r1 t' (onSpeechEnd_r1 t w)) = checkpoint (onSpeechEnd_r1 t w)) \<and>
   ((\<forall>e\<in>set es. detector_event e) \<and> pending w = [] \<longrightarrow>
      pastes (run_r2 es w) \<le> Suc (pastes w) \<and> teardowns (run_r2 es w) \<le> Suc (teardowns w) \<and>
      (hasEndedRef w \<longrightarrow>
         pastes (run_r2 es w) = pastes w \<and> teardowns (run_r2 es w) = teardowns w))"
proof (intro conjI impI)
  assume "hasEndedRef w"
  then show "onSpeechEnd_r1 t w = w" "onSpeechEnd_r2 t w = w"
    by (simp_all add: onSpeechEnd_r1_def onSpeechEnd_r2_def hook_onSpeechEnd_latched)
next
  assume a: "\<not> hasEndedRef w \<and> pending w = []"
  then have h: "\<not> hasEndedRef w" and p: "pending w = []" by simp_all
  show "pastes (checkpoint (onSpeechEnd_r2 t w)) = Suc (pastes w)"
    by (simp add: pastes_def speech_end_r2_trace [OF h p] quiet_actions is_paste_def)
  show "teardowns (checkpoint (onSpeechEnd_r2 t w)) = Suc (teardowns w)"
    by (simp add: teardowns_def speech_end_r2_trace [OF h p] quiet_actions)
  show "teardowns (checkpoint (onSpeechEnd_r1 t w)) = Suc (teardowns w)"
    by (simp add: teardowns_def speech_end_r1_trace [OF h p] quiet_actions)
  show "checkpoint (onSpeechEnd_r2 t' (checkpoint (onSpeechEnd_r2 t w))) =
        checkpoint (onSpeechEnd_r2 t w)"
    using speech_end_after [OF h p, of t]
    by (simp add: onSpeechEnd_r2_def hook_onSpeechEnd_latched checkpoint_idle)
  show "checkpoint (onSpeechEnd_r1 t' (checkpoint (onSpeechEnd_r1 t w))) =
        checkpoint (onSpeechEnd_r1 t w)"
    using speech_end_after [OF h p, of t]
    by (simp add: onSpeechEnd_r1_def hook_onSpeechEnd_latched checkpoint_idle)
  show "checkpoint (onSpeechEnd_r2 t' (onSpeechEnd_r2 t w)) = checkpoint (onSpeechEnd_r2 t w)"
    by (simp add: onSpeechEnd_r2_def hook_onSpeechEnd_latched hook_onSpeechEnd_fields)
  show "checkpoint (onSpeechEnd_r1 t' (onSpeechEnd_r1 t w)) = checkpoint (onSpeechEnd_r1 t w)"
    by (simp add: onSpeechEnd_r1_def hook_onSpeechEnd_latched hook_onSpeechEnd_fields)
next
  assume a: "(\<forall>e\<in>set es. detector_event e) \<and> pending w = []"
  then show "pastes (run_r2 es w) \<le> Suc (pastes w)" "teardowns (run_r2 es w) \<le> Suc (teardowns w)"
    using session_at_most_once [of es w] by simp_all
  assume "hasEndedRef w"
  with a show "pastes (run_r2 es w) = pastes w" "teardowns (run_r2 es w) = teardowns w"
    using session_latched [of es w] by simp_all
qed

theorem C1_witness:
  "hasEndedRef ended \<and> onSpeechEnd_r2 ''there'' ended = ended \<and>
   \<not> hasEndedRef heard \<and> pending heard = [] \<and>
   pastes (checkpoint (onSpeechEnd_r2 ''hello'' heard)) = 1 \<and>
   checkpoint (onSpeechEnd_r2 ''hello'' (checkpoint (onSpeechEnd_r2 ''hello'' heard))) =
     checkpoint (onSpeechEnd_r2 ''hello'' heard) \<and>
   detector_event (Transcript 0 (speech_final_result ''there'')) \<and>
   detector_event (UtteranceEnd 0) \<and>
   pastes (run_r2 [Transcript 0 (speech_final_result ''there''), UtteranceEnd 0] heard) \<le> 1 \<and>
   pastes (run_r2 [UtteranceEnd 0] ended) = 1"
  using C1_speech_end_idempotent [of ended "''there''" "''there''" "[UtteranceEnd 0]"]
    C1_speech_end_idempotent [of heard "''hello''" "''hello''"
      "[Transcript 0 (speech_final_result ''there''), UtteranceEnd 0]"]
  by (simp add: ended_fields heard_fields heard_counts detector_event_def)

section \<open>The order of the teardown\<close>

text \<open>
  Claim C5. An honoured \<^verbatim>\<open>onSpeechEnd\<close> of revision 2 adds to the trace, in this order: the
  latch, the stop of the recorder and of the tracks, the \<^verbatim>\<open>finish\<close> of the link, the
  clearing of \<^verbatim>\<open>deepgramRef\<close>, \<^verbatim>\<open>setIsRecording(false)\<close>, \<^verbatim>\<open>setIsProcessing(true)\<close>, the
  paste request. At the \<^verbatim>\<open>await\<close> the capture is stopped and the link closed while the
  reference and the flags are still what they were; after it the reference is
  \<^verbatim>\<open>null\<close>, \<^verbatim>\<open>isRecording\<close> is false and \<^verbatim>\<open>isProcessing\<close> is true.
\<close>

theorem C5_teardown_order:
  "\<not> hasEndedRef w \<and> pending w = [] \<longrightarrow>
     added w (checkpoint (onSpeechEnd_r2 t w)) =
       [RefHasEnded True] @ audio_actions w @ link_actions w @
       [RefDeepgram None, SetIsRecording False, SetIsProcessing True, InvokePaste t] \<and>
     mediaRecorder (onSpeechEnd_r2 t w) = None \<and> audioStream (onSpeechEnd_r2 t w) = None \<and>
     (\<forall>a. deepgramRef w = Some a \<longrightarrow> connection (this a (onSpeechEnd_r2 t w)) = None) \<and>
     deepgramRef (onSpeechEnd_r2 t w) = deepgramRef w \<and>
     isRecording (onSpeechEnd_r2 t w) = isRecording w \<and>
     isProcessing (onSpeechEnd_r2 t w) = isProcessing w \<and>
     deepgramRef (checkpoint (onSpeechEnd_r2 t w)) = None \<and>
     \<not> isRecording (checkpoint (onSpeechEnd_r2 t w)) \<and>
     isProcessing (checkpoint (onSpeechEnd_r2 t w))"
proof (intro impI)
  assume "\<not> hasEndedRef w \<and> pending w = []"
  then have h: "\<not> hasEndedRef w" and p: "pending w = []" by simp_all
  have link: "\<forall>a. deepgramRef w = Some a \<longrightarrow> connection (this a (onSpeechEnd_r2 t w)) = None"
    using h by (simp add: onSpeechEnd_r2_def hook_onSpeechEnd_link new_service_def)
  have tr: "added w (checkpoint (onSpeechEnd_r2 t w)) =
       [RefHasEnded True] @ audio_actions w @ link_actions w @
       [RefDeepgram None, SetIsRecording False, SetIsProcessing True, InvokePaste t]"
    by (simp add: added_def speech_end_r2_trace [OF h p])
  have sync: "mediaRecorder (onSpeechEnd_r2 t w) = None" "audioStream (onSpeechEnd_r2 t w) = None"
    "deepgramRef (onSpeechEnd_r2 t w) = deepgramRef w"
    "isRecording (onSpeechEnd_r2 t w) = isRecording w"
    "isProcessing (onSpeechEnd_r2 t w) = isProcessing w"
    using h by (simp_all add: onSpeechEnd_r2_def hook_onSpeechEnd_fields)
  show "added w (checkpoint (onSpeechEnd_r2 t w)) =
       [RefHasEnded True] @ audio_actions w @ link_actions w @
       [RefDeepgram None, SetIsRecording False, SetIsProcessing True, InvokePaste t] \<and>
     mediaRecorder (onSpeechEnd_r2 t w) = None \<and> audioStream (onSpeechEnd_r2 t w) = None \<and>
     (\<forall>a. deepgramRef w = Some a \<longrightarrow> connection (this a (onSpeechEnd_r2 t w)) = None) \<and>
     deepgramRef (onSpeechEnd_r2 t w) = deepgramRef w \<and>
     isRecording (onSpeechEnd_r2 t w) = isRecording w \<and>
     isProcessing (onSpeechEnd_r2 t w) = isProcessing w \<and>
     deepgramRef (checkpoint (onSpeechEnd_r2 t w)) = None \<and>
     \<not> isRecording (checkpoint (onSpeechEnd_r2 t w)) \<and>
     isProcessing (checkpoint (onSpeechEnd_r2 t w))"
    using link tr sync speech_end_after [OF h p, of t] by simp
qed

theorem C5_witness:
  "\<not> hasEndedRef heard \<and> pending heard = [] \<and>
   added heard (checkpoint (onSpeechEnd_r2 ''hello'' heard)) =
     [RefHasEnded True, RecorderStop, TrackStop, ConnFinish 0, RefDeepgram None,
      SetIsRecording False, SetIsProcessing True, InvokePaste ''hello''] \<and>
   added heard ended =
     [CbTranscript ''hello there'' True, SetTranscript ''hello there'',
      CbSpeechEnd ''hello there'', RefHasEnded True, RecorderStop, TrackStop, ConnFinish 0,
      RefDeepgram None, SetIsRecording False, SetIsProcessing True, InvokePaste ''hello there'']"
proof -
  have a: "audio_actions heard = [RecorderStop, TrackStop]"
    by (simp add: audio_actions_def heard_fields)
  have l: "link_actions heard = [ConnFinish 0]"
    by (simp add: link_actions_def heard_fields is_open_def)
  have e: "added heard ended =
     [CbTranscript ''hello there'' True, SetTranscript ''hello there'',
      CbSpeechEnd ''hello there'', RefHasEnded True, RecorderStop, TrackStop, ConnFinish 0,
      RefDeepgram None, SetIsRecording False, SetIsProcessing True, InvokePaste ''hello there'']"
    by (simp add: added_def ended_def heard_def listening_def run_defs svc_defs setters hook_defs
        Let_def)
  show ?thesis
    using C5_teardown_order [of heard "''hello''"] a l e by (simp add: heard_fields)
qed

section \<open>Manual stop\<close>

text \<open>
  Claim C7. \<^verbatim>\<open>stopRecording\<close> of revision 2, from any world: the recorder and the stream are
  dropped (after the stop calls that \<open>audio_actions\<close> lists), the service that
  \<^verbatim>\<open>deepgramRef\<close> named has no connection (after \<^verbatim>\<open>finish\<close> if it was open), the reference is
  \<^verbatim>\<open>null\<close>, both latches and \<^verbatim>\<open>isRecording\<close> are false, and what it adds to the trace
  holds no paste request. The function is total: it has no failing branch.
\<close>

theorem C7_stop_from_any_state:
  "mediaRecorder (stopRecording_r2 w) = None \<and> audioStream (stopRecording_r2 w) = None \<and>
   (\<forall>a. deepgramRef w = Some a \<longrightarrow> connection (this a (stopRecording_r2 w)) = None) \<and>
   deepgramRef (stopRecording_r2 w) = None \<and>
   \<not> hasEndedRef (stopRecording_r2 w) \<and> \<not> isStartingRef (stopRecording_r2 w) \<and>
   \<not> isRecording (stopRecording_r2 w) \<and>
   added w (stopRecording_r2 w) =
     audio_actions w @ link_actions w @
     [RefDeepgram None, SetIsRecording False, RefHasEnded False, RefIsStarting False] \<and>
   pastes (stopRecording_r2 w) = pastes w \<and> pending (stopRecording_r2 w) = pending w"
  by (simp add: stopRecording_r2_def stop_reset_fields stop_teardown_fields stop_teardown_trace
      added_def pastes_def quiet_actions is_paste_def new_service_def)

theorem C7_witness:
  "deepgramRef heard = Some 0 \<and> connection (this 0 (stopRecording_r2 heard)) = None \<and>
   added heard (stopRecording_r2 heard) =
     [RecorderStop, TrackStop, ConnFinish 0, RefDeepgram None, SetIsRecording False,
      RefHasEnded False, RefIsStarting False] \<and>
   added initial (stopRecording_r2 initial) =
     [RefDeepgram None, SetIsRecording False, RefHasEnded False, RefIsStarting False] \<and>
   added ended (stopRecording_r2 ended) =
     [RefDeepgram None, SetIsRecording False, RefHasEnded False, RefIsStarting False] \<and>
   pastes (stopRecording_r2 ended) = pastes ended"
proof -
  have a: "audio_actions heard = [RecorderStop, TrackStop]" "audio_actions initial = []"
    "audio_actions ended = []"
    by (simp_all add: audio_actions_def heard_fields ended_fields initial_def)
  have l: "link_actions heard = [ConnFinish 0]" "link_actions initial = []"
    "link_actions ended = []"
    by (simp_all add: link_actions_def heard_fields ended_fields is_open_def initial_def)
  show ?thesis
    using C7_stop_from_any_state [of heard] C7_stop_from_any_state [of initial]
      C7_stop_from_any_state [of ended] a l
    by (simp add: heard_fields)
qed

section \<open>The transcript shown after a final result\<close>

text \<open>
  Claim C3, as amended. Take a service that has had no \<^verbatim>\<open>speech_final\<close> and whose
  \<^verbatim>\<open>finalTranscript\<close> is the texts \<open>prev\<close> committed so far, none of them empty, joined by
  single spaces. After any run \<open>ds\<close> of Transcript events without \<^verbatim>\<open>speech_final\<close> (interim
  results, and final results that commit more text) followed by a final result \<open>d\<close> whose
  text is not empty, the transcript the hook shows is the committed texts and the text of
  \<open>d\<close>, joined by single spaces: no interim text is in it. This holds for both revisions of
  the handler, and whether or not \<open>d\<close> also carries \<^verbatim>\<open>speech_final\<close>.

  The claim as stated, for every final result, fails for one with an empty text: the
  handler returns before it looks at \<^verbatim>\<open>is_final\<close>, and the transcript shown stays the last
  interim one.
\<close>

theorem C3_final_display_is_joined_commits:
  assumes "\<forall>e\<in>set ds. \<not> speech_final e" "\<not> hasSpeechFinal (this a w)"
    "finalTranscript (this a w) = join_space prev" "\<forall>p\<in>set prev. p \<noteq> ''''"
    "is_final d" "transcript_of d \<noteq> ''''"
  shows "transcript (fold (on_Transcript_r2 callbacks_r2 a) (ds @ [d]) w) =
           join_space (prev @ committed ds @ [transcript_of d]) \<and>
         transcript (fold (on_Transcript_r1 callbacks_r1 a) (ds @ [d]) w) =
           join_space (prev @ committed ds @ [transcript_of d])"
proof -
  note q = fold_quiet [OF assms(1-4)]
  have ne: "\<forall>p\<in>set (prev @ committed ds). p \<noteq> ''''"
    using assms(4) by (auto simp: committed_def)
  from q have f2: "finalTranscript (this a (fold (on_Transcript_r2 callbacks_r2 a) ds w)) =
           join_space (prev @ committed ds)"
    and f1: "finalTranscript (this a (fold (on_Transcript_r1 callbacks_r1 a) ds w)) =
           join_space (prev @ committed ds)"
    and a1: "\<not> hasSpeechFinal (this a (fold (on_Transcript_r1 callbacks_r1 a) ds w))"
    by simp_all
  show ?thesis
    using final_display(1) [OF assms(5,6)] final_display(2) [OF assms(5,6) a1]
      commit_join [OF f2 ne] commit_join [OF f1 ne]
    by simp
qed

theorem C3_witness:
  "transcript (fold (on_Transcript_r2 callbacks_r2 0)
      ([interim_result ''the'', interim_result ''there''] @ [final_result ''there'']) heard) =
     ''hello there'' \<and>
   transcript (fold (on_Transcript_r1 callbacks_r1 0)
      ([interim_result ''the'', interim_result ''there''] @ [final_result ''there'']) heard) =
     ''hello there''"
proof -
  have h: "\<forall>e\<in>set [interim_result ''the'', interim_result ''there'']. \<not> speech_final e"
    "\<not> hasSpeechFinal (this 0 heard)" "finalTranscript (this 0 heard) = join_space [''hello'']"
    "\<forall>p\<in>set [''hello'']. p \<noteq> ''''" "is_final (final_result ''there'')"
    "transcript_of (final_result ''there'') \<noteq> ''''"
    by (simp_all add: interim_result_def final_result_def heard_fields transcript_of_def)
  have c: "committed [interim_result ''the'', interim_result ''there''] = []"
    by (simp add: committed_def interim_result_def)
  show ?thesis
    using C3_final_display_is_joined_commits [OF h]
    by (simp add: c transcript_of_def final_result_def)
qed

theorem C3_counterexample:
  "is_final (final_result '''') \<and>
   transcript (fold (on_Transcript_r2 callbacks_r2 0)
      ([interim_result ''hel''] @ [final_result '''']) listening) = ''hel'' \<and>
   transcript (fold (on_Transcript_r2 callbacks_r2 0)
      ([interim_result ''hel''] @ [final_result '''']) listening) \<noteq>
     join_space ([] @ committed [interim_result ''hel''] @ [transcript_of (final_result '''')])"
  by (simp add: listening_def run_defs svc_defs setters hook_defs Let_def committed_def)

section \<open>The stored interim hypothesis after a commit or an end of utterance\<close>

text \<open>
  Claim C4, as amended, for revision 2. \<^verbatim>\<open>interimTranscript\<close> of a service is empty after
  the job of a Transcript event for it that is final with a text that is not empty; after
  the job of a Transcript event on which the primary detector ends the utterance
  (\<^verbatim>\<open>speech_final\<close>, a text that is not empty, \<^verbatim>\<open>hasSpeechFinal\<close> clear); and after the job of
  an \<^verbatim>\<open>UtteranceEnd\<close> event that reaches \<^verbatim>\<open>onSpeechEnd\<close> while the hook's latch is clear and
  \<^verbatim>\<open>deepgramRef\<close> names this service.

  The claim as stated fails twice: a final result with an empty text
  returns at the first line of the handler and leaves the interim text stored; and an
  \<^verbatim>\<open>onSpeechEnd\<close> from the fallback detector that the hook's latch ignores stops nothing, so
  the interim text of the service stays. Revision 1 never clears \<^verbatim>\<open>interimTranscript\<close> in
  its \<^verbatim>\<open>is_final\<close> branch (\<open>r1_final_keeps_interim\<close>); revision 2 added the line that does.
\<close>

theorem C4_interim_cleared_after_commit_or_end:
  "(is_final d \<and> transcript_of d \<noteq> '''' \<longrightarrow>
      interimTranscript (this a (step_r2 (Transcript a d) w)) = '''') \<and>
   (speech_final d \<and> transcript_of d \<noteq> '''' \<and> \<not> hasSpeechFinal (this a w) \<longrightarrow>
      interimTranscript (this a (step_r2 (Transcript a d) w)) = '''') \<and>
   (\<not> hasEndedRef w \<and> deepgramRef w = Some a \<and> \<not> hasSpeechFinal (this a w) \<and>
    finalTranscript (this a w) \<noteq> '''' \<longrightarrow>
      interimTranscript (this a (step_r2 (UtteranceEnd a) w)) = '''')"
  by (simp add: step_r2_def handle_r2_def checkpoint_frame final_clears_interim
      speech_final_resets fallback_resets new_service_def)

theorem C4_witness:
  "interimTranscript (this 0 hearing) = ''the'' \<and>
   is_final (final_result ''there'') \<and> transcript_of (final_result ''there'') \<noteq> '''' \<and>
   interimTranscript (this 0 (step_r2 (Transcript 0 (final_result ''there'')) hearing)) = '''' \<and>
   speech_final (speech_final_result ''there'') \<and> \<not> hasSpeechFinal (this 0 hearing) \<and>
   interimTranscript (this 0 (step_r2 (Transcript 0 (speech_final_result ''there'')) hearing)) =
     '''' \<and>
   \<not> hasEndedRef hearing \<and> deepgramRef hearing = Some 0 \<and>
   finalTranscript (this 0 hearing) \<noteq> '''' \<and>
   interimTranscript (this 0 (step_r2 (UtteranceEnd 0) hearing)) = ''''"
  using C4_interim_cleared_after_commit_or_end [of "final_result ''there''" 0 hearing]
    C4_interim_cleared_after_commit_or_end [of "speech_final_result ''there''" 0 hearing]
  by (simp add: hearing_fields final_result_def speech_final_result_def transcript_of_def)

theorem C4_counterexample:
  "is_final (final_result '''') \<and>
   interimTranscript (this 0
     (run_r2 [Transcript 0 (interim_result ''hel''), Transcript 0 (final_result '''')] listening)) =
     ''hel'' \<and>
   interimTranscript (this 0
     (run_r2 [Transcript 0 (interim_result ''hel''), Transcript 0 (final_result '''')] listening)) \<noteq>
     '''' \<and>
   CbSpeechEnd ''b'' \<in> set (added ended (run_r2 [Transcript 0 (final_result ''b''),
       Transcript 0 (interim_result ''c''), UtteranceEnd 0] ended)) \<and>
   interimTranscript (this 0 (run_r2 [Transcript 0 (final_result ''b''),
       Transcript 0 (interim_result ''c''), UtteranceEnd 0] ended)) = ''c'' \<and>
   interimTranscript (this 0 (run_r2 [Transcript 0 (final_result ''b''),
       Transcript 0 (interim_result ''c''), UtteranceEnd 0] ended)) \<noteq> ''''"
  by (simp add: added_def ended_def heard_def listening_def run_defs svc_defs setters hook_defs
      Let_def)

section \<open>A failed start leaves the hook restartable\<close>

text \<open>
  Claim C6. When the request for the microphone is rejected, or \<^verbatim>\<open>new MediaRecorder\<close> throws,
  the \<^verbatim>\<open>catch\<close> of \<^verbatim>\<open>startRecording\<close> (revision 2) leaves \<^verbatim>\<open>isRecording\<close> false, \<^verbatim>\<open>error\<close> set
  and \<^verbatim>\<open>isStartingRef\<close> false. When the connection reports an error, or
  \<^verbatim>\<open>DeepgramService.start\<close> catches what the SDK throws, \<^verbatim>\<open>onError\<close> leaves the same. In each
  case the guard of the next \<^verbatim>\<open>startRecording\<close> lets it through, for the closure of the render
  that shows the failure as for the closure of the first render, and that call asks for
  the microphone again and (when the SDK does not throw) opens a link.
\<close>

theorem C6_restartable_after_acquisition_failure:
  "(out = Denied \<or> out = RecorderUnsupported n \<longrightarrow>
      \<not> isRecording (startRecording_finish_r2 out w) \<and>
      error (startRecording_finish_r2 out w) = Some ''Failed to start recording'' \<and>
      \<not> isStartingRef (startRecording_finish_r2 out w) \<and>
      \<not> start_guard (isRecording (startRecording_finish_r2 out w))
          (startRecording_finish_r2 out w) \<and>
      \<not> start_guard first_render_isRecording (startRecording_finish_r2 out w) \<and>
      captures_requested (startRecording_r2 False exn (startRecording_finish_r2 out w)) =
        Suc (captures_requested (startRecording_finish_r2 out w)) \<and>
      links_opened (startRecording_r2 False None (startRecording_finish_r2 out w)) =
        Suc (links_opened (startRecording_finish_r2 out w))) \<and>
   \<not> isRecording (on_Error callbacks_r2 m w) \<and> error (on_Error callbacks_r2 m w) \<noteq> None \<and>
   \<not> isStartingRef (on_Error callbacks_r2 m w) \<and>
   \<not> start_guard (isRecording (on_Error callbacks_r2 m w)) (on_Error callbacks_r2 m w) \<and>
   \<not> start_guard first_render_isRecording (on_Error callbacks_r2 m w) \<and>
   captures_requested (startRecording_r2 False exn (on_Error callbacks_r2 m w)) =
     Suc (captures_requested (on_Error callbacks_r2 m w)) \<and>
   links_opened (startRecording_r2 False None (on_Error callbacks_r2 m w)) =
     Suc (links_opened (on_Error callbacks_r2 m w)) \<and>
   \<not> isRecording (svc_start callbacks_r2 a (Some msg) w) \<and>
   error (svc_start callbacks_r2 a (Some msg) w) = Some msg \<and>
   \<not> isStartingRef (svc_start callbacks_r2 a (Some msg) w)"
proof -
  have g: "\<not> isRecording v \<Longrightarrow> \<not> isStartingRef v \<Longrightarrow>
      \<not> start_guard (isRecording v) v \<and> \<not> start_guard first_render_isRecording v \<and>
      \<not> start_guard False v" for v
    by (simp add: start_guard_def first_render_isRecording_def initial_def)
  show ?thesis
    using g [of "startRecording_finish_r2 out w"] g [of "on_Error callbacks_r2 m w"]
    by (auto simp add: finish_failed_fields on_Error_fields start_counts)
qed

theorem C6_witness:
  "\<not> isRecording (run_r2 [AltSpace None, Mic Denied] initial) \<and>
   error (run_r2 [AltSpace None, Mic Denied] initial) = Some ''Failed to start recording'' \<and>
   \<not> isStartingRef (run_r2 [AltSpace None, Mic Denied] initial) \<and>
   captures_requested (run_r2 [AltSpace None, Mic Denied, AltSpace None] initial) = 2 \<and>
   links_opened (run_r2 [AltSpace None, Mic Denied, AltSpace None] initial) = 2 \<and>
   isRecording (run_r2 [AltSpace None, Mic Denied, AltSpace None, Mic (Granted 1)] initial) \<and>
   error (run_r2 [AltSpace None, Mic Denied, AltSpace None, Mic (Granted 1)] initial) = None"
proof -
  have e: "run_r2 [AltSpace None, Mic Denied] initial =
      startRecording_finish_r2 Denied (run_r2 [AltSpace None] initial)"
    by (simp add: run_r2_def step_r2_def handle_r2_def checkpoint_def run_defs setters svc_defs
        hook_defs Let_def)
  have c: "captures_requested (run_r2 [AltSpace None] initial) = 1"
    "links_opened (run_r2 [AltSpace None] initial) = 1"
    by (simp_all add: captures_requested_def links_opened_def is_open_action_def run_defs setters
        svc_defs hook_defs Let_def)
  have r: "captures_requested (run_r2 [AltSpace None, Mic Denied, AltSpace None] initial) = 2"
    "links_opened (run_r2 [AltSpace None, Mic Denied, AltSpace None] initial) = 2"
    "isRecording (run_r2 [AltSpace None, Mic Denied, AltSpace None, Mic (Granted 1)] initial)"
    "error (run_r2 [AltSpace None, Mic Denied, AltSpace None, Mic (Granted 1)] initial) = None"
    by (simp_all add: captures_requested_def links_opened_def is_open_action_def run_defs setters
        svc_defs hook_defs Let_def)
  show ?thesis
    using C6_restartable_after_acquisition_failure
      [of Denied 0 "run_r2 [AltSpace None] initial" None None 0 "[]"] r
    by (simp add: e)
qed

section \<open>A second start\<close>

text \<open>
  Claim C2. The source says of its guard: \<^verbatim>\<open>// Prevent starting if already recording or starting\<close>.
  The guard is the first statement of \<^verbatim>\<open>startRecording\<close> and the latch is set by the
  next one, before any \<^verbatim>\<open>await\<close> (\<open>start_latch_sets\<close>); a call that finds the latch set, or
  whose closure holds \<^verbatim>\<open>isRecording = true\<close>, returns the world unchanged (\<open>start_noop\<close>,
  \<open>start_latched_noop\<close>), and a second call right after a first one whose link opened is
  such a call (\<open>start_twice\<close>).

  But a call while a recording is active is not a no-op in the program. The latch is
  cleared when the first start completes, and the hotkey handler holds the
  \<^verbatim>\<open>startRecording\<close> of the first render, whose \<^verbatim>\<open>isRecording\<close> is false for ever. Evaluated
  below: in the world \<open>listening\<close> (recording active, latch clear, one link and one
  microphone request so far) the guard would stop a closure that holds the current
  \<^verbatim>\<open>isRecording\<close>, but not the one the hotkey calls: the hotkey opens a second link and
  asks for the microphone a second time, and once that is granted two recorders have been
  started and none stopped.
  Likewise a start whose link fails has its latch cleared by \<^verbatim>\<open>onError\<close> while its request
  for the microphone is still pending, and a second hotkey press then makes a second request.
\<close>

theorem C2_second_start_not_ignored:
  "isRecording listening \<and> \<not> isStartingRef listening \<and>
   start_guard (isRecording listening) listening \<and>
   \<not> start_guard first_render_isRecording listening \<and>
   links_opened listening = 1 \<and> captures_requested listening = 1 \<and>
   links_opened (step_r2 (AltSpace None) listening) = 2 \<and>
   captures_requested (step_r2 (AltSpace None) listening) = 2 \<and>
   recorders_started (run_r2 [AltSpace None, Mic (Granted 1)] listening) = 2 \<and>
   recorders_stopped (run_r2 [AltSpace None, Mic (Granted 1)] listening) = 0 \<and>
   \<not> isStartingRef (step_r2 (AltSpace (Some ''no key'')) initial) \<and>
   captures_requested (step_r2 (AltSpace (Some ''no key'')) initial) = 1 \<and>
   captures_requested
     (run_r2 [AltSpace (Some ''no key''), AltSpace (Some ''no key'')] initial) = 2"
  by (simp add: listening_def run_defs svc_defs setters hook_defs Let_def links_opened_def
      captures_requested_def recorders_started_def recorders_stopped_def is_open_action_def)

end
